theory Spec2Isabelle
  imports Main "HOL-Library.Multiset" "HOL-Library.Word"
begin

section \<open>The heartbeat monitor: \<open>usePingPongState\<close>\<close>

text \<open>
  The hook keeps two React state cells (\<open>connected\<close>, \<open>latency\<close>) and two variables
  local to its effect (\<open>at\<close>, \<open>previousCheck\<close>). Times are the integer milliseconds
  of \<open>Date.now()\<close>; the value \<open>0\<close> of \<open>at\<close> is the source's marker for "no probe
  outstanding". What the hook does to the transport is kept as a list of effects, in
  the order of the calls.
\<close>

datatype effect = Send_ping | Reconnect

record pingpong =
  frequency :: int
  timeout :: int
  at :: int
  previousCheck :: int
  connected :: bool
  latency :: int
  effects :: "effect list"

text \<open>Mounting the hook at time \<open>now\<close>: the initial cells, and the start of the effect.\<close>

definition usePingPongState :: "int \<Rightarrow> int \<Rightarrow> int \<Rightarrow> pingpong" where
  "usePingPongState f t now =
     \<lparr>frequency = f, timeout = t, at = 0, previousCheck = now,
      connected = False, latency = 0, effects = []\<rparr>"

text \<open>The body of the \<open>setInterval\<close> callback, run at time \<open>now\<close>.\<close>

definition tick :: "pingpong \<Rightarrow> int \<Rightarrow> pingpong" where
  "tick m now =
     (let m' =
        (if at m \<noteq> 0 \<and> now - previousCheck m > 2 * frequency m then
           (if now - at m \<ge> timeout m
            then m\<lparr>connected := False, at := 0, effects := effects m @ [Reconnect]\<rparr>
            else m)
         else m\<lparr>at := now, effects := effects m @ [Send_ping]\<rparr>)
      in m'\<lparr>previousCheck := now\<rparr>)"

text \<open>
  \<open>handlePong\<close>, run at time \<open>now\<close>. The \<open>connected\<close> it tests is not the cell but the
  constant of the render in which the effect ran, here the argument \<open>captured\<close>: when
  that was \<open>true\<close> the listener never sets the cell.
\<close>

definition handlePong :: "bool \<Rightarrow> pingpong \<Rightarrow> int \<Rightarrow> pingpong" where
  "handlePong captured m now =
     (if \<not> captured then m\<lparr>connected := True\<rparr> else m)\<lparr>latency := now - at m, at := 0\<rparr>"

text \<open>A run of timer ticks at the given times, with no pong in between.\<close>

fun ticks :: "pingpong \<Rightarrow> int list \<Rightarrow> pingpong" where
  "ticks m [] = m"
| "ticks m (now # nows) = ticks (tick m now) nows"

text \<open>Regular ticking: no tick comes more than twice the period after the one before.\<close>

fun regular :: "int \<Rightarrow> int \<Rightarrow> int list \<Rightarrow> bool" where
  "regular f prev [] = True"
| "regular f prev (now # nows) = (now - prev \<le> 2 * f \<and> regular f now nows)"

section \<open>The status tracker: \<open>useStatusState\<close>\<close>

text \<open>
  Four React state cells. \<open>handleStatus\<close> is registered by an effect whose dependency
  list is \<open>[ws]\<close>: the listener that runs is the closure of the render in which the
  effect last ran, and the \<open>ignoreOnlineStatus\<close> it reads is that render's constant.
  The field \<open>handler_ignoreOnlineStatus\<close> is that captured value.
\<close>

record status =
  online :: bool
  ignoreOnlineStatus :: bool
  status_latency :: int
  rate :: int
  handler_ignoreOnlineStatus :: bool

text \<open>First render, followed by the first run of the effect.\<close>

definition useStatusState :: status where
  "useStatusState =
     \<lparr>online = False, ignoreOnlineStatus = False, status_latency = 0, rate = 0,
      handler_ignoreOnlineStatus = False\<rparr>"

definition forceOnline :: "status \<Rightarrow> status" where
  "forceOnline s = s\<lparr>ignoreOnlineStatus := True, online := True\<rparr>"

definition forceOffline :: "status \<Rightarrow> status" where
  "forceOffline s = s\<lparr>ignoreOnlineStatus := True, online := False\<rparr>"

text \<open>
  A later render. The effect runs again, and registers a listener closed over the
  current cells, only when \<open>ws\<close> is not the object of the previous render.
\<close>

definition render :: "bool \<Rightarrow> status \<Rightarrow> status" where
  "render ws_changed s =
     (if ws_changed then s\<lparr>handler_ignoreOnlineStatus := ignoreOnlineStatus s\<rparr> else s)"

text \<open>The registered \<open>handleStatus\<close> on a status event with detail \<open>[on, lat, r]\<close>.\<close>

definition handleStatus :: "status \<Rightarrow> bool \<times> int \<times> int \<Rightarrow> status" where
  "handleStatus s d =
     (case d of (on, lat, r) \<Rightarrow>
        (if \<not> handler_ignoreOnlineStatus s then s\<lparr>online := on\<rparr> else s)
          \<lparr>status_latency := lat, rate := r\<rparr>)"

section \<open>The platform: strings, values and JSON\<close>

text \<open>
  A JavaScript string is a sequence of 16-bit code units; \<open>js\<close> writes one from ASCII
  text. The numbers are the platform's: the provider never computes with one, so
  their type is left open. A value is what \<open>JSON.parse\<close> can return; an object is the
  list of its members, each name once.
\<close>

type_synonym code_unit = "16 word"

type_synonym jsstring = "code_unit list"

definition js :: "string \<Rightarrow> jsstring" where
  "js s = map of_char s"

typedecl number

instantiation number :: equal
begin

definition equal_number :: "number \<Rightarrow> number \<Rightarrow> bool" where
  "equal_number x y = (x = y)"

instance
  by standard (simp add: equal_number_def)

end

datatype json = JNull | JBool bool | JNum number | JStr jsstring
  | JArr "json list" | JObj "(jsstring \<times> json) list"

text \<open>
  \<open>JSON.parse\<close>, \<open>JSON.stringify\<close> and the string conversion of numbers are built
  into the platform and are not code of the repository: every function below that
  uses one takes them as the parameter \<open>pf\<close>, and every theorem holds for whatever
  they are. \<open>JSON_parse\<close> gives \<open>None\<close> where \<open>JSON.parse\<close> throws its \<open>SyntaxError\<close>.
\<close>

record platform =
  JSON_parse :: "jsstring \<Rightarrow> json option"
  JSON_stringify :: "json \<Rightarrow> jsstring"
  Number_toString :: "number \<Rightarrow> jsstring"

text \<open>
  Reading a property of a parsed value: the member of that name of an object,
  \<open>undefined\<close> (here \<open>None\<close>) on an object without it and on a boolean, a number, a
  string or an array, none of which has a property \<open>event\<close> or \<open>data\<close>. The value \<open>null\<close>
  is handled where the read happens, since the read throws there.
\<close>

definition get_prop :: "json \<Rightarrow> jsstring \<Rightarrow> json option" where
  "get_prop v k = (case v of JObj ms \<Rightarrow> map_of ms k | _ \<Rightarrow> None)"

text \<open>
  The string conversion that the \<open>CustomEvent\<close> constructor applies to its first
  argument. An array is joined with commas, \<open>null\<close> elements giving the empty string;
  an object gives \<open>[object Object]\<close>, and throws (\<open>None\<close>) when a member named
  \<open>toString\<close> hides the inherited method, a parsed value never being callable.
\<close>

fun ToString :: "platform \<Rightarrow> json \<Rightarrow> jsstring option"
  and join :: "platform \<Rightarrow> json list \<Rightarrow> jsstring option"
where
  "ToString pf JNull = Some (js ''null'')"
| "ToString pf (JBool b) = Some (if b then js ''true'' else js ''false'')"
| "ToString pf (JNum x) = Some (Number_toString pf x)"
| "ToString pf (JStr s) = Some s"
| "ToString pf (JArr vs) = join pf vs"
| "ToString pf (JObj ms) =
     (if js ''toString'' \<in> fst ` set ms then None else Some (js ''[object Object]''))"
| "join pf [] = Some []"
| "join pf (v # vs) =
     (case (if v = JNull then Some [] else ToString pf v) of
        None \<Rightarrow> None
      | Some x \<Rightarrow>
         (if vs = [] then Some x
          else (case join pf vs of None \<Rightarrow> None | Some y \<Rightarrow> Some (x @ js '','' @ y))))"

section \<open>The provider: \<open>M2Provider\<close>\<close>

text \<open>
  A \<open>CustomEvent\<close> as the provider builds it: its type and its \<open>detail\<close>, which the
  constructor sets to \<open>null\<close> when the member given is \<open>undefined\<close>.
\<close>

record m2event =
  etype :: jsstring
  detail :: json

datatype error = Error jsstring

text \<open>
  The first two statements of the \<open>try\<close> block of \<open>handleMessage\<close>: \<open>JSON.parse\<close>, the
  reads of \<open>payload.event\<close> and \<open>payload.data\<close>, and the construction of the event.
  \<open>None\<close> is an exception in any of them (a syntax error, a read on \<open>null\<close>, a failed
  string conversion), which the \<open>catch\<close> turns into the provider's own \<open>Error\<close>.
\<close>

definition decode :: "platform \<Rightarrow> jsstring \<Rightarrow> m2event option" where
  "decode pf frame =
     (case JSON_parse pf frame of
        None \<Rightarrow> None
      | Some payload \<Rightarrow>
         (if payload = JNull then None
          else
            (case (case get_prop payload (js ''event'') of
                     None \<Rightarrow> Some (js ''undefined'') | Some e \<Rightarrow> ToString pf e) of
               None \<Rightarrow> None
             | Some t \<Rightarrow>
                Some \<lparr>etype = t,
                      detail = (case get_prop payload (js ''data'') of
                                  None \<Rightarrow> JNull | Some d \<Rightarrow> d)\<rparr>)))"

text \<open>
  \<open>send\<close>: the frame handed to \<open>ws.send\<close>. The object given to \<open>JSON.stringify\<close> has
  the two members \<open>event\<close> and \<open>data\<close>, the second only when \<open>data\<close> is not \<open>undefined\<close>
  (here \<open>None\<close>), as \<open>JSON.stringify\<close> leaves such a member out.
\<close>

definition send :: "platform \<Rightarrow> jsstring \<Rightarrow> json option \<Rightarrow> jsstring" where
  "send pf event data =
     JSON_stringify pf
       (JObj ((js ''event'', JStr event) #
              (case data of None \<Rightarrow> [] | Some d \<Rightarrow> [(js ''data'', d)])))"

text \<open>
  The body of \<open>M2Provider\<close> runs at every render, and every render makes its own
  \<open>listeners\<close>, \<open>frozen\<close> and \<open>frozenEventQ\<close> and its own closures \<open>send\<close> and \<open>freeze\<close>
  over them. The effect that registers \<open>handleMessage\<close> depends on \<open>ws\<close> alone, a
  constant of the module, so it runs once: \<open>handleMessage\<close> reads and writes the
  variables of the first render for as long as the provider is mounted. Renders are
  numbered from 0. Nothing ever pushes onto the queue of a later render, so all that
  a later render contributes to the state is its flag \<open>frozen\<close>.

  A listener here is one registered on the \<open>listeners\<close> of render 0, the only event
  target on which anything is ever dispatched: the event type it is registered for,
  an identity, and what its body calls, for each event it is given, of the things a
  listener can reach: the \<open>freeze\<close> of some render, and a \<open>message\<close> event dispatched on
  \<open>ws\<close> while the body runs. The table of these listeners, in registration order, is
  the parameter \<open>ls\<close>.
\<close>

datatype cmd = CallFreeze nat bool | Message jsstring

record listener =
  ltype :: jsstring
  lid :: nat
  lbody :: "m2event \<Rightarrow> cmd list"

text \<open>
  The state: \<open>frozen\<close> and \<open>frozenEventQ\<close> of render 0; the flags \<open>frozen\<close> of the later
  renders; whether \<open>handleMessage\<close> is registered on \<open>ws\<close>; and four traces of what has
  happened: the events decoded by \<open>handleMessage\<close>, the events passed to
  \<open>listeners.dispatchEvent\<close>, the listener invocations, and the exceptions that left
  \<open>handleMessage\<close>, which the event target that called it reports.
\<close>

record m2 =
  frozen :: bool
  frozenEventQ :: "m2event list"
  later_frozen :: "bool list"
  listening :: bool
  arrived :: "m2event list"
  dispatched :: "m2event list"
  delivered :: "(nat \<times> m2event) list"
  reported :: "error list"

text \<open>The first render and its effect; a later render; the effect's cleanup.\<close>

definition M2Provider :: m2 where
  "M2Provider =
     \<lparr>frozen = False, frozenEventQ = [], later_frozen = [], listening = True,
      arrived = [], dispatched = [], delivered = [], reported = []\<rparr>"

definition provider_render :: "m2 \<Rightarrow> m2" where
  "provider_render s = s\<lparr>later_frozen := later_frozen s @ [False]\<rparr>"

definition unmount :: "m2 \<Rightarrow> m2" where
  "unmount s = s\<lparr>listening := False\<rparr>"

text \<open>
  \<open>handleMessage\<close> and \<open>freeze\<close> as in the source, with the platform's
  \<open>dispatchEvent\<close> between them: \<open>invoke\<close> calls the listeners of the event's type in
  turn and \<open>run_cmds\<close> runs the calls of one listener body. \<open>freeze\<close> takes the number
  \<open>r\<close> of the render whose closure is called; for a later render its loop finds that
  render's queue empty. \<open>handleMessage\<close> returns \<open>Inl\<close> of the \<open>Error\<close> it throws.
  \<open>ws_message\<close> is a \<open>message\<close> event on \<open>ws\<close>: it calls \<open>handleMessage\<close> if that is
  registered; what it throws is reported, and the listener stays registered. A
  listener can cause further dispatches without end, so the functions take fuel:
  each call of a listener command and each round of the drain loop uses one unit,
  and \<open>None\<close> is a run that needs more.
\<close>

function dispatchEvent :: "platform \<Rightarrow> nat \<Rightarrow> listener list \<Rightarrow> m2 \<Rightarrow> m2event \<Rightarrow> m2 option"
  and invoke :: "platform \<Rightarrow> nat \<Rightarrow> listener list \<Rightarrow> m2 \<Rightarrow> m2event \<Rightarrow> listener list \<Rightarrow> m2 option"
  and run_cmds :: "platform \<Rightarrow> nat \<Rightarrow> listener list \<Rightarrow> m2 \<Rightarrow> cmd list \<Rightarrow> m2 option"
  and freeze :: "platform \<Rightarrow> nat \<Rightarrow> listener list \<Rightarrow> nat \<Rightarrow> bool \<Rightarrow> m2 \<Rightarrow> m2 option"
  and drain :: "platform \<Rightarrow> nat \<Rightarrow> listener list \<Rightarrow> m2 \<Rightarrow> m2 option"
  and handleMessage :: "platform \<Rightarrow> nat \<Rightarrow> listener list \<Rightarrow> m2 \<Rightarrow> jsstring \<Rightarrow> (error + m2) option"
  and ws_message :: "platform \<Rightarrow> nat \<Rightarrow> listener list \<Rightarrow> m2 \<Rightarrow> jsstring \<Rightarrow> m2 option"
where
  "dispatchEvent pf n ls s ev =
     invoke pf n ls (s\<lparr>dispatched := dispatched s @ [ev]\<rparr>) ev
       (filter (\<lambda>l. ltype l = etype ev) ls)"
| "invoke pf n ls s ev hs =
     (case hs of
        [] \<Rightarrow> Some s
      | l # rest \<Rightarrow>
         (case run_cmds pf n ls (s\<lparr>delivered := delivered s @ [(lid l, ev)]\<rparr>) (lbody l ev) of
            None \<Rightarrow> None
          | Some s' \<Rightarrow> invoke pf n ls s' ev rest))"
| "run_cmds pf n ls s cs =
     (case cs of
        [] \<Rightarrow> Some s
      | c # cs' \<Rightarrow>
         (case n of
            0 \<Rightarrow> None
          | Suc m \<Rightarrow>
             (case (case c of CallFreeze r b \<Rightarrow> freeze pf m ls r b s
                            | Message f \<Rightarrow> ws_message pf m ls s f) of
                None \<Rightarrow> None
              | Some s' \<Rightarrow> run_cmds pf n ls s' cs')))"
| "freeze pf n ls r b s =
     (if r = 0 then
        (if \<not> b then drain pf n ls (s\<lparr>frozen := b\<rparr>) else Some (s\<lparr>frozen := b\<rparr>))
      else Some (s\<lparr>later_frozen := (later_frozen s)[r - 1 := b]\<rparr>))"
| "drain pf n ls s =
     (case frozenEventQ s of
        [] \<Rightarrow> Some s
      | ev # q \<Rightarrow>
         (case n of
            0 \<Rightarrow> None
          | Suc m \<Rightarrow>
             (case dispatchEvent pf m ls (s\<lparr>frozenEventQ := q\<rparr>) ev of
                None \<Rightarrow> None
              | Some s' \<Rightarrow> drain pf m ls s')))"
| "handleMessage pf n ls s frame =
     (case decode pf frame of
        None \<Rightarrow> Some (Inl (Error (js ''Cannot parse message from M2: '' @ frame)))
      | Some ev \<Rightarrow>
         (if frozen s
          then Some (Inr (s\<lparr>frozenEventQ := frozenEventQ s @ [ev],
                             arrived := arrived s @ [ev]\<rparr>))
          else map_option Inr (dispatchEvent pf n ls (s\<lparr>arrived := arrived s @ [ev]\<rparr>) ev)))"
| "ws_message pf n ls s frame =
     (if \<not> listening s then Some s
      else
        (case handleMessage pf n ls s frame of
           None \<Rightarrow> None
         | Some (Inl e) \<Rightarrow> Some (s\<lparr>reported := reported s @ [e]\<rparr>)
         | Some (Inr s') \<Rightarrow> Some s'))"
  by pat_completeness auto
termination
  by (relation "inv_image (less_than <*lex*> less_than <*lex*> less_than)
       (case_sum
         (case_sum (\<lambda>(pf, n, ls, s, ev). (n, 3::nat, 0::nat))
           (case_sum (\<lambda>(pf, n, ls, s, ev, hs). (n, 2, length hs))
                     (\<lambda>(pf, n, ls, s, cs). (n, 1, length cs))))
         (case_sum
           (case_sum (\<lambda>(pf, n, ls, r, b, s). (n, 5, 0)) (\<lambda>(pf, n, ls, s). (n, 4, 0)))
           (case_sum (\<lambda>(pf, n, ls, s, f). (n, 4, 0)) (\<lambda>(pf, n, ls, s, f). (n, 5, 0)))))")
     auto

declare dispatchEvent.simps [simp del] invoke.simps [simp del] run_cmds.simps [simp del]
  freeze.simps [simp del] drain.simps [simp del] handleMessage.simps [simp del]
  ws_message.simps [simp del]

text \<open>Frames arriving one after the other, each as a \<open>message\<close> event on \<open>ws\<close>.\<close>

fun receive :: "platform \<Rightarrow> nat \<Rightarrow> listener list \<Rightarrow> m2 \<Rightarrow> jsstring list \<Rightarrow> m2 option" where
  "receive pf n ls s [] = Some s"
| "receive pf n ls s (f # fs) =
     (case ws_message pf n ls s f of None \<Rightarrow> None | Some s' \<Rightarrow> receive pf n ls s' fs)"



text \<open>A table of listeners whose bodies call nothing back into the provider.\<close>

definition passive_listeners :: "listener list \<Rightarrow> bool" where
  "passive_listeners ls = list_all (\<lambda>l. \<forall>ev. lbody l ev = []) ls"

text \<open>The invocations that one dispatch of \<open>ev\<close> makes when no listener calls back.\<close>

definition deliveries :: "listener list \<Rightarrow> m2event \<Rightarrow> (nat \<times> m2event) list" where
  "deliveries ls ev = map (\<lambda>l. (lid l, ev)) (filter (\<lambda>l. ltype l = etype ev) ls)"

text \<open>
  The states of the provider that calls from outside can produce: frames arriving on
  \<open>ws\<close> and calls of a \<open>freeze\<close>, each run to its end, later renders, and the cleanup.
\<close>

inductive reachable :: "platform \<Rightarrow> listener list \<Rightarrow> m2 \<Rightarrow> bool"
  for pf :: platform and ls :: "listener list"
where
  reachable_init: "reachable pf ls M2Provider"
| reachable_message:
    "reachable pf ls s \<Longrightarrow> ws_message pf n ls s f = Some s' \<Longrightarrow> reachable pf ls s'"
| reachable_freeze:
    "reachable pf ls s \<Longrightarrow> freeze pf n ls r b s = Some s' \<Longrightarrow> reachable pf ls s'"
| reachable_render: "reachable pf ls s \<Longrightarrow> reachable pf ls (provider_render s)"
| reachable_unmount: "reachable pf ls s \<Longrightarrow> reachable pf ls (unmount s)"

text \<open>Between calls from outside, events are queued only while the gate is frozen.\<close>

definition gate_inv :: "m2 \<Rightarrow> bool" where
  "gate_inv s = (\<not> frozen s \<longrightarrow> frozenEventQ s = [])"










text \<open>
  A value that the wire format carries without loss: the platform reads back from
  its text the value that was printed.
\<close>

definition representable :: "platform \<Rightarrow> json \<Rightarrow> bool" where
  "representable pf v = (JSON_parse pf (JSON_stringify pf v) = Some v)"

section \<open>Examples: a platform at a few frames, listener tables, states\<close>

text \<open>
  What \<open>JSON.parse\<close> returns for the frames of the examples, with the \<open>SyntaxError\<close> on
  the cut-off text \<open>{"event":\<close>, and what \<open>JSON.stringify\<close> returns for the two objects
  of the examples. No example applies them to anything else, and none contains a number.
\<close>

definition example_parse :: "jsstring \<Rightarrow> json option" where
  \<open>example_parse f =
     (if f = js ''{"event":"a","data":"x"}'' then
        Some (JObj [(js ''event'', JStr (js ''a'')), (js ''data'', JStr (js ''x''))])
      else if f = js ''{"event":"a","data":"y"}'' then
        Some (JObj [(js ''event'', JStr (js ''a'')), (js ''data'', JStr (js ''y''))])
      else if f = js ''{"event":"a"}'' then Some (JObj [(js ''event'', JStr (js ''a''))])
      else if f = js ''{"event":"b"}'' then Some (JObj [(js ''event'', JStr (js ''b''))])
      else if f = js ''{"event":""}'' then Some (JObj [(js ''event'', JStr [])])
      else if f = js ''{"data":"x"}'' then Some (JObj [(js ''data'', JStr (js ''x''))])
      else None)\<close>

definition example_stringify :: "json \<Rightarrow> jsstring" where
  \<open>example_stringify v =
     (if v = JObj [(js ''event'', JStr (js ''a'')), (js ''data'', JStr (js ''x''))]
      then js ''{"event":"a","data":"x"}''
      else if v = JObj [(js ''event'', JStr (js ''ping''))] then js ''{"event":"ping"}''
      else [])\<close>

definition example_platform :: platform where
  "example_platform =
     \<lparr>JSON_parse = example_parse, JSON_stringify = example_stringify,
      Number_toString = (\<lambda>x. [])\<rparr>"

text \<open>The events of the examples.\<close>

definition a_x :: m2event where
  "a_x = \<lparr>etype = js ''a'', detail = JStr (js ''x'')\<rparr>"

definition a_y :: m2event where
  "a_y = \<lparr>etype = js ''a'', detail = JStr (js ''y'')\<rparr>"



text \<open>A table with one listener, for events of type \<open>a\<close>, that calls nothing back.\<close>

definition one_listener :: "listener list" where
  "one_listener = [\<lparr>ltype = js ''a'', lid = 0, lbody = (\<lambda>ev. [])\<rparr>]"




text \<open>
  Two listeners for events of type \<open>a\<close>: the first calls \<open>freeze(false)\<close>, the second
  calls nothing.
\<close>

definition releasing_listeners :: "listener list" where
  "releasing_listeners =
     [\<lparr>ltype = js ''a'', lid = 0, lbody = (\<lambda>ev. [CallFreeze 0 False])\<rparr>,
      \<lparr>ltype = js ''a'', lid = 1, lbody = (\<lambda>ev. [])\<rparr>]"

text \<open>A frozen gate with two events of type \<open>a\<close> queued, and a flowing one with one.\<close>

definition two_queued :: m2 where
  "two_queued = M2Provider\<lparr>frozen := True, frozenEventQ := [a_x, a_y]\<rparr>"

definition flowing_queued :: m2 where
  "flowing_queued = M2Provider\<lparr>frozenEventQ := [a_y], dispatched := [a_x], delivered := [(0, a_x)]\<rparr>"

section \<open>Heartbeat: results\<close>

lemma tick_regular_effects:
  "at m = 0 \<or> now - previousCheck m \<le> 2 * frequency m \<Longrightarrow>
   effects (tick m now) = effects m @ [Send_ping] \<and> at (tick m now) = now
   \<and> previousCheck (tick m now) = now \<and> frequency (tick m now) = frequency m
   \<and> connected (tick m now) = connected m"
  by (auto simp: tick_def Let_def)

lemma ticks_regular_no_reconnect:
  "regular (frequency m) (previousCheck m) nows \<Longrightarrow>
   Reconnect \<notin> set (effects m) \<Longrightarrow>
   Reconnect \<notin> set (effects (ticks m nows)) \<and> connected (ticks m nows) = connected m"
proof (induction nows arbitrary: m)
  case Nil
  then show ?case by simp
next
  case (Cons now nows)
  from Cons.prems(1) have gap: "now - previousCheck m \<le> 2 * frequency m"
    and rest: "regular (frequency m) now nows" by simp_all
  from gap have t: "effects (tick m now) = effects m @ [Send_ping]"
    "previousCheck (tick m now) = now" "frequency (tick m now) = frequency m"
    "connected (tick m now) = connected m"
    using tick_regular_effects [of m now] by simp_all
  have "Reconnect \<notin> set (effects (tick m now))"
    using t(1) Cons.prems(2) by simp
  moreover have "regular (frequency (tick m now)) (previousCheck (tick m now)) nows"
    using rest t by simp
  ultimately show ?case
    using Cons.IH [of "tick m now"] t(4) by simp
qed

text \<open>
  C2. The claim: on a tick with a probe outstanding and more than twice the period
  since the previous tick, the monitor does not declare disconnection, does not
  reconnect, and sends a fresh probe. The code at period 1000, timeout 3000, mounted
  at time 0, first tick at 1000 (a probe goes out), next tick at 5000 (a gap of 4000):
  that tick sets \<open>connected\<close> to false, clears the probe, calls \<open>reconnect\<close> and sends
  no probe.
\<close>

theorem C2_gap_tick_reconnects:
  "tick (tick (usePingPongState 1000 3000 0) 1000) 5000 =
     \<lparr>frequency = 1000, timeout = 3000, at = 0, previousCheck = 5000,
      connected = False, latency = 0, effects = [Send_ping, Reconnect]\<rparr>"
  by (simp add: tick_def usePingPongState_def Let_def)

text \<open>
  On every tick with a probe outstanding and more than twice the period since the
  previous tick, no probe is sent; \<open>reconnect\<close> is called when the timeout has passed
  since the probe, and otherwise the tick does nothing but record its time.
\<close>

lemma gap_tick_sends_no_probe:
  "at m \<noteq> 0 \<Longrightarrow> now - previousCheck m > 2 * frequency m \<Longrightarrow>
   tick m now =
     (if now - at m \<ge> timeout m
      then m\<lparr>connected := False, at := 0, effects := effects m @ [Reconnect],
             previousCheck := now\<rparr>
      else m\<lparr>previousCheck := now\<rparr>)"
  by (simp add: tick_def Let_def)

text \<open>
  C3. The claim: with period 1000 and timeout 3000, regular ticking and no pong, the
  monitor declares disconnection at or after 3000 ms and reconnects once. The code on
  ticks at 1000, 2000, ..., 6000 after a mount at time 0: every tick sends a new probe
  and \<open>reconnect\<close> is never called.
\<close>

theorem C3_regular_ticks_only_ping:
  "ticks (usePingPongState 1000 3000 0) [1000, 2000, 3000, 4000, 5000, 6000] =
     \<lparr>frequency = 1000, timeout = 3000, at = 6000, previousCheck = 6000,
      connected = False, latency = 0,
      effects = [Send_ping, Send_ping, Send_ping, Send_ping, Send_ping, Send_ping]\<rparr>"
  by (simp add: tick_def usePingPongState_def Let_def)

text \<open>
  The same for every period, every timeout and every run of regular ticks: without a
  gap of more than twice the period, \<open>reconnect\<close> is never called.
\<close>

lemma regular_ticks_never_reconnect:
  "regular f now0 nows \<Longrightarrow>
   Reconnect \<notin> set (effects (ticks (usePingPongState f t now0) nows))"
  using ticks_regular_no_reconnect [of "usePingPongState f t now0" nows]
  by (simp add: usePingPongState_def)

text \<open>
  C9 (as stated). The claim: a period or timeout that is zero or negative is rejected.
  The code: mounting with period 0 and timeout -1 gives a monitor holding these values,
  and its first tick sends a probe.
\<close>

theorem C9_nonpositive_accepted:
  "frequency (usePingPongState 0 (- 1) 0) = 0
   \<and> timeout (usePingPongState 0 (- 1) 0) = - 1
   \<and> effects (tick (usePingPongState 0 (- 1) 0) 4) = [Send_ping]"
  by (simp add: tick_def usePingPongState_def Let_def)

text \<open>
  C9 (amended). Mounting the heartbeat monitor accepts every period and every timeout,
  of any sign, without a check: the monitor holds the values as given and its first
  tick sends a probe.
\<close>

theorem C9_any_configuration_used:
  "frequency (usePingPongState f t now) = f
   \<and> timeout (usePingPongState f t now) = t
   \<and> effects (tick (usePingPongState f t now) now') = [Send_ping]"
  by (simp add: tick_def usePingPongState_def Let_def)

section \<open>Status tracker: results\<close>

text \<open>
  As long as \<open>ws\<close> stays the same object, the registered listener keeps the value it
  captured, and a status event after a forced state sets \<open>online\<close> to what it carries.
\<close>

lemma status_event_sets_online:
  "\<not> handler_ignoreOnlineStatus s \<Longrightarrow>
   online (handleStatus (render False (forceOffline s)) (on, lat, r)) = on
   \<and> online (handleStatus (render False (forceOnline s)) (on, lat, r)) = on"
  by (simp add: handleStatus_def render_def forceOffline_def forceOnline_def)

text \<open>
  C5. The claim: after the force-offline trigger, a status event with \<open>online = true\<close>
  leaves the tracked online value false, and latency and rate take the event's values.
  The code after mount, force-offline, a render with the same \<open>ws\<close>, and the status
  event \<open>[true, 20, 5]\<close>: latency and rate are 20 and 5, and \<open>online\<close> is true, since
  the registered listener still reads the \<open>ignoreOnlineStatus\<close> of the first render.
\<close>

theorem C5_status_overrides_forceOffline:
  "handleStatus (render False (forceOffline useStatusState)) (True, 20, 5) =
     \<lparr>online = True, ignoreOnlineStatus = True, status_latency = 20, rate = 5,
      handler_ignoreOnlineStatus = False\<rparr>"
  by (simp add: handleStatus_def render_def forceOffline_def useStatusState_def)


section \<open>The provider: unfolding the functions\<close>

lemma run_cmds_Nil [simp]: "run_cmds pf n ls s [] = Some s"
  by (simp add: run_cmds.simps [of pf n ls s "[]"])

lemma invoke_Nil [simp]: "invoke pf n ls s ev [] = Some s"
  by (simp add: invoke.simps [of pf n ls s ev "[]"])

lemma invoke_Cons:
  "invoke pf n ls s ev (l # rest) =
     (case run_cmds pf n ls (s\<lparr>delivered := delivered s @ [(lid l, ev)]\<rparr>) (lbody l ev) of
        None \<Rightarrow> None
      | Some s' \<Rightarrow> invoke pf n ls s' ev rest)"
  by (simp add: invoke.simps [of pf n ls s ev "l # rest"])

lemma run_cmds_0 [simp]: "run_cmds pf 0 ls s (c # cs) = None"
  by (simp add: run_cmds.simps [of pf 0 ls s "c # cs"])

lemma run_cmds_Suc:
  "run_cmds pf (Suc m) ls s (c # cs) =
     (case (case c of CallFreeze r b \<Rightarrow> freeze pf m ls r b s
                   | Message f \<Rightarrow> ws_message pf m ls s f) of
        None \<Rightarrow> None
      | Some s' \<Rightarrow> run_cmds pf (Suc m) ls s' cs)"
  by (simp add: run_cmds.simps [of pf "Suc m" ls s "c # cs"])

lemma drain_Nil: "frozenEventQ s = [] \<Longrightarrow> drain pf n ls s = Some s"
  by (simp add: drain.simps [of pf n ls s])

lemma drain_0: "frozenEventQ s \<noteq> [] \<Longrightarrow> drain pf 0 ls s = None"
  by (simp add: drain.simps [of pf 0 ls s] split: list.splits)

lemma drain_Suc:
  "frozenEventQ s = ev # q \<Longrightarrow>
   drain pf (Suc m) ls s =
     (case dispatchEvent pf m ls (s\<lparr>frozenEventQ := q\<rparr>) ev of
        None \<Rightarrow> None
      | Some s' \<Rightarrow> drain pf m ls s')"
  by (simp add: drain.simps [of pf "Suc m" ls s])

lemma freeze_True [simp]: "freeze pf n ls 0 True s = Some (s\<lparr>frozen := True\<rparr>)"
  by (simp add: freeze.simps [of pf n ls 0 _ s])

lemma freeze_False: "freeze pf n ls 0 False s = drain pf n ls (s\<lparr>frozen := False\<rparr>)"
  by (simp add: freeze.simps [of pf n ls 0 _ s])

lemma freeze_later:
  "0 < r \<Longrightarrow> freeze pf n ls r b s = Some (s\<lparr>later_frozen := (later_frozen s)[r - 1 := b]\<rparr>)"
  by (simp add: freeze.simps [of pf n ls r b s])

lemma invoke_ConsE:
  assumes "invoke pf n ls s ev (l # rest) = Some s'"
  obtains s1 where "run_cmds pf n ls (s\<lparr>delivered := delivered s @ [(lid l, ev)]\<rparr>) (lbody l ev) = Some s1"
    and "invoke pf n ls s1 ev rest = Some s'"
  using assms by (auto simp: invoke_Cons split: option.splits)

lemma run_cmds_ConsE:
  assumes "run_cmds pf n ls s (c # cs) = Some s'"
  obtains m s1 where "n = Suc m"
    and "(case c of CallFreeze r b \<Rightarrow> freeze pf m ls r b s
          | Message f \<Rightarrow> ws_message pf m ls s f) = Some s1"
    and "run_cmds pf n ls s1 cs = Some s'"
  using assms by (cases n) (auto simp: run_cmds_Suc split: option.splits)

lemma drain_ConsE:
  assumes "drain pf n ls s = Some s'" and "frozenEventQ s = ev # q"
  obtains m s1 where "n = Suc m"
    and "dispatchEvent pf m ls (s\<lparr>frozenEventQ := q\<rparr>) ev = Some s1"
    and "drain pf m ls s1 = Some s'"
  using assms by (cases n) (auto simp: drain_0 drain_Suc split: option.splits)

lemma handleMessage_bad:
  "decode pf frame = None \<Longrightarrow>
   handleMessage pf n ls s frame =
     Some (Inl (Error (js ''Cannot parse message from M2: '' @ frame)))"
  by (simp add: handleMessage.simps [of pf n ls s frame])

lemma handleMessage_frozen:
  "decode pf frame = Some ev \<Longrightarrow> frozen s \<Longrightarrow>
   handleMessage pf n ls s frame =
     Some (Inr (s\<lparr>frozenEventQ := frozenEventQ s @ [ev], arrived := arrived s @ [ev]\<rparr>))"
  by (simp add: handleMessage.simps [of pf n ls s frame])

lemma handleMessage_flowing:
  "decode pf frame = Some ev \<Longrightarrow> \<not> frozen s \<Longrightarrow>
   handleMessage pf n ls s frame =
     map_option Inr (dispatchEvent pf n ls (s\<lparr>arrived := arrived s @ [ev]\<rparr>) ev)"
  by (simp add: handleMessage.simps [of pf n ls s frame])

lemma ws_message_deaf: "\<not> listening s \<Longrightarrow> ws_message pf n ls s frame = Some s"
  by (simp add: ws_message.simps [of pf n ls s frame])

lemma ws_message_bad:
  "listening s \<Longrightarrow> decode pf frame = None \<Longrightarrow>
   ws_message pf n ls s frame =
     Some (s\<lparr>reported := reported s @ [Error (js ''Cannot parse message from M2: '' @ frame)]\<rparr>)"
  by (simp add: ws_message.simps [of pf n ls s frame] handleMessage_bad)

lemma ws_message_frozen:
  "listening s \<Longrightarrow> decode pf frame = Some ev \<Longrightarrow> frozen s \<Longrightarrow>
   ws_message pf n ls s frame =
     Some (s\<lparr>frozenEventQ := frozenEventQ s @ [ev], arrived := arrived s @ [ev]\<rparr>)"
  by (simp add: ws_message.simps [of pf n ls s frame] handleMessage_frozen)

lemma ws_message_flowing:
  "listening s \<Longrightarrow> decode pf frame = Some ev \<Longrightarrow> \<not> frozen s \<Longrightarrow>
   ws_message pf n ls s frame = dispatchEvent pf n ls (s\<lparr>arrived := arrived s @ [ev]\<rparr>) ev"
  by (cases "dispatchEvent pf n ls (s\<lparr>arrived := arrived s @ [ev]\<rparr>) ev")
     (simp_all add: ws_message.simps [of pf n ls s frame] handleMessage_flowing)

text \<open>The ways in which a \<open>message\<close> event can end.\<close>

lemma ws_message_cases:
  assumes "ws_message pf n ls s frame = Some s'"
  obtains (deaf) "\<not> listening s" "s' = s"
    | (bad) "listening s" "decode pf frame = None"
        "s' = s\<lparr>reported := reported s @ [Error (js ''Cannot parse message from M2: '' @ frame)]\<rparr>"
    | (handled) "listening s" "handleMessage pf n ls s frame = Some (Inr s')"
proof (cases "listening s")
  case False
  with assms have "s' = s" by (simp add: ws_message_deaf)
  with False show ?thesis by (rule deaf)
next
  case True
  show ?thesis
  proof (cases "decode pf frame")
    case None
    with True assms
    have "s' = s\<lparr>reported := reported s @ [Error (js ''Cannot parse message from M2: '' @ frame)]\<rparr>"
      by (simp add: ws_message_bad)
    with True None show ?thesis by (rule bad)
  next
    case (Some ev)
    show ?thesis
    proof (cases "frozen s")
      case frozen: True
      from assms have "s' = s\<lparr>frozenEventQ := frozenEventQ s @ [ev], arrived := arrived s @ [ev]\<rparr>"
        by (simp add: ws_message_frozen [OF True Some frozen])
      then have "handleMessage pf n ls s frame = Some (Inr s')"
        by (simp add: handleMessage_frozen [OF Some frozen])
      with True show ?thesis by (rule handled)
    next
      case False
      from assms have "dispatchEvent pf n ls (s\<lparr>arrived := arrived s @ [ev]\<rparr>) ev = Some s'"
        by (simp add: ws_message_flowing [OF True Some False])
      then have "handleMessage pf n ls s frame = Some (Inr s')"
        by (simp add: handleMessage_flowing [OF Some False])
      with True show ?thesis by (rule handled)
    qed
  qed
qed

section \<open>The provider: a flowing gate has an empty queue\<close>

lemma gate_inv_steps:
  shows "dispatchEvent pf n ls s ev = Some s' \<Longrightarrow> gate_inv s \<Longrightarrow> gate_inv s'"
    and "invoke pf n ls s ev hs = Some s' \<Longrightarrow> gate_inv s \<Longrightarrow> gate_inv s'"
    and "run_cmds pf n ls s cs = Some s' \<Longrightarrow> gate_inv s \<Longrightarrow> gate_inv s'"
    and "freeze pf n ls r b s = Some s' \<Longrightarrow> r = 0 \<or> gate_inv s \<Longrightarrow> gate_inv s'"
    and "drain pf n ls s = Some s' \<Longrightarrow> frozenEventQ s' = []"
    and "handleMessage pf n ls s frame = Some (Inr s') \<Longrightarrow> gate_inv s \<Longrightarrow> gate_inv s'"
    and "ws_message pf n ls s frame = Some s' \<Longrightarrow> gate_inv s \<Longrightarrow> gate_inv s'"
proof (induction pf n ls s ev and pf n ls s ev hs and pf n ls s cs and pf n ls r b s
    and pf n ls s and pf n ls s frame and pf n ls s frame arbitrary: s' and s' and s' and s' and s' and s' and s'
    rule: dispatchEvent_invoke_run_cmds_freeze_drain_handleMessage_ws_message.induct)
  case (1 pf n ls s ev)
  have g: "gate_inv (s\<lparr>dispatched := dispatched s @ [ev]\<rparr>)"
    using "1.prems"(2) by (simp add: gate_inv_def)
  from "1.prems"(1) have "invoke pf n ls (s\<lparr>dispatched := dispatched s @ [ev]\<rparr>) ev
      (filter (\<lambda>l. ltype l = etype ev) ls) = Some s'"
    by (simp add: dispatchEvent.simps)
  from "1.IH" [OF this g] show ?case .
next
  case (2 pf n ls s ev hs)
  show ?case
  proof (cases hs)
    case Nil
    with "2.prems" show ?thesis by simp
  next
    case (Cons l rest)
    with "2.prems"(1) obtain s1
      where r: "run_cmds pf n ls (s\<lparr>delivered := delivered s @ [(lid l, ev)]\<rparr>) (lbody l ev) = Some s1"
        and i: "invoke pf n ls s1 ev rest = Some s'"
      by (auto elim: invoke_ConsE)
    have "gate_inv (s\<lparr>delivered := delivered s @ [(lid l, ev)]\<rparr>)"
      using "2.prems"(2) by (simp add: gate_inv_def)
    from "2.IH"(1) [OF Cons r this] have "gate_inv s1" .
    from "2.IH"(2) [OF Cons r i this] show ?thesis .
  qed
next
  case (3 pf n ls s cs)
  show ?case
  proof (cases cs)
    case Nil
    with "3.prems" show ?thesis by simp
  next
    case (Cons c cs')
    with "3.prems"(1) obtain m s1 where n: "n = Suc m"
      and c: "(case c of CallFreeze r b \<Rightarrow> freeze pf m ls r b s
          | Message f \<Rightarrow> ws_message pf m ls s f) = Some s1"
      and r: "run_cmds pf n ls s1 cs' = Some s'"
      by (auto elim: run_cmds_ConsE)
    have "gate_inv s1"
    proof (cases c)
      case (CallFreeze r b)
      with c have "freeze pf m ls r b s = Some s1" by simp
      from "3.IH"(1) [OF Cons n CallFreeze this] "3.prems"(2) show ?thesis by simp
    next
      case (Message f)
      with c have "ws_message pf m ls s f = Some s1" by simp
      from "3.IH"(2) [OF Cons n Message this "3.prems"(2)] show ?thesis .
    qed
    from "3.IH"(3) [OF Cons n c r this] show ?thesis .
  qed
next
  case (4 pf n ls r b s)
  show ?case
  proof (cases "r = 0")
    case zero: True
    show ?thesis
    proof (cases b)
      case True
      with zero "4.prems"(1) show ?thesis by (auto simp: gate_inv_def)
    next
      case False
      with zero "4.prems"(1) have "drain pf n ls (s\<lparr>frozen := b\<rparr>) = Some s'"
        by (simp add: freeze_False)
      from "4.IH" [OF zero _ this] False show ?thesis by (simp add: gate_inv_def)
    qed
  next
    case False
    with "4.prems"(1) have "s' = s\<lparr>later_frozen := (later_frozen s)[r - 1 := b]\<rparr>"
      by (simp add: freeze_later)
    with False "4.prems"(2) show ?thesis by (simp add: gate_inv_def)
  qed
next
  case (5 pf n ls s)
  show ?case
  proof (cases "frozenEventQ s")
    case Nil
    with "5.prems" show ?thesis by (simp add: drain_Nil)
  next
    case (Cons ev q)
    with "5.prems" obtain m s1 where n: "n = Suc m"
      and d: "dispatchEvent pf m ls (s\<lparr>frozenEventQ := q\<rparr>) ev = Some s1"
      and r: "drain pf m ls s1 = Some s'"
      by (auto elim: drain_ConsE)
    show ?thesis
      using "5.IH"(2) [OF Cons n d r] .
  qed
next
  case (6 pf n ls s frame)
  show ?case
  proof (cases "decode pf frame")
    case None
    with "6.prems" show ?thesis by (simp add: handleMessage_bad)
  next
    case (Some ev)
    show ?thesis
    proof (cases "frozen s")
      case True
      with Some "6.prems" show ?thesis by (auto simp: handleMessage_frozen gate_inv_def)
    next
      case False
      with Some "6.prems"(1) have d: "dispatchEvent pf n ls (s\<lparr>arrived := arrived s @ [ev]\<rparr>) ev = Some s'"
        by (auto simp: handleMessage_flowing)
      have "gate_inv (s\<lparr>arrived := arrived s @ [ev]\<rparr>)"
        using "6.prems"(2) by (simp add: gate_inv_def)
      from "6.IH" [OF Some False d this] show ?thesis .
    qed
  qed
next
  case (7 pf n ls s frame)
  from "7.prems"(1) show ?case
  proof (cases rule: ws_message_cases)
    case deaf
    with "7.prems"(2) show ?thesis by simp
  next
    case bad
    with "7.prems"(2) show ?thesis by (simp add: gate_inv_def)
  next
    case handled
    from "7.IH" [OF _ handled(2) "7.prems"(2)] handled(1) show ?thesis by simp
  qed
qed

lemma reachable_gate_inv: "reachable pf ls s \<Longrightarrow> gate_inv s"
proof (induction rule: reachable.induct)
  case reachable_init
  show ?case by (simp add: gate_inv_def M2Provider_def)
next
  case (reachable_message s n f s')
  then show ?case using gate_inv_steps(7) by blast
next
  case (reachable_freeze s n r b s')
  then show ?case using gate_inv_steps(4) by blast
next
  case (reachable_render s)
  then show ?case by (simp add: gate_inv_def provider_render_def)
next
  case (reachable_unmount s)
  then show ?case by (simp add: gate_inv_def unmount_def)
qed

section \<open>The provider: listeners that call nothing back\<close>

lemma invoke_passive:
  "list_all (\<lambda>l. \<forall>ev. lbody l ev = []) hs \<Longrightarrow>
   invoke pf n ls s ev hs = Some (s\<lparr>delivered := delivered s @ map (\<lambda>l. (lid l, ev)) hs\<rparr>)"
proof (induction hs arbitrary: s)
  case Nil
  then show ?case by simp
next
  case (Cons l hs)
  then show ?case by (simp add: invoke_Cons)
qed

lemma dispatchEvent_passive:
  "passive_listeners ls \<Longrightarrow>
   dispatchEvent pf n ls s ev =
     Some (s\<lparr>dispatched := dispatched s @ [ev],
             delivered := delivered s @ deliveries ls ev\<rparr>)"
  unfolding dispatchEvent.simps passive_listeners_def deliveries_def
  by (subst invoke_passive) (simp_all add: list_all_iff)

lemma drain_passive:
  "passive_listeners ls \<Longrightarrow> length (frozenEventQ s) \<le> n \<Longrightarrow>
   drain pf n ls s =
     Some (s\<lparr>frozenEventQ := [],
             dispatched := dispatched s @ frozenEventQ s,
             delivered := delivered s @ concat (map (deliveries ls) (frozenEventQ s))\<rparr>)"
proof (induction n arbitrary: s)
  case 0
  then show ?case by (simp add: drain_Nil)
next
  case (Suc n)
  show ?case
  proof (cases "frozenEventQ s")
    case Nil
    then show ?thesis by (simp add: drain_Nil)
  next
    case (Cons ev q)
    then show ?thesis
      using Suc.prems Suc.IH [of "s\<lparr>frozenEventQ := q, dispatched := dispatched s @ [ev],
             delivered := delivered s @ deliveries ls ev\<rparr>"]
      by (simp add: drain_Suc dispatchEvent_passive)
  qed
qed








section \<open>The provider: engaging and releasing twice\<close>

text \<open>
  C6 (as stated). The claim: releasing a gate that is already flowing dispatches
  nothing and has the effect of not calling release at all. The code in the state
  \<open>flowing_queued\<close>, where the gate is flowing, one event is still queued, and the first
  listener has just been given the event before it: the release dispatches the
  queued event to both listeners. That state is the one in which the first listener
  runs when \<open>two_queued\<close> is released, and its call of \<open>freeze(false)\<close> there makes the
  second listener see the second event before the first.
\<close>

theorem C6_release_of_flowing_gate_dispatches:
  "\<not> frozen flowing_queued
   \<and> freeze example_platform 4 releasing_listeners 0 False flowing_queued =
       Some (flowing_queued\<lparr>frozenEventQ := [], dispatched := [a_x, a_y],
               delivered := [(0, a_x), (0, a_y), (1, a_y)]\<rparr>)
   \<and> freeze example_platform 4 releasing_listeners 0 False two_queued =
       Some (two_queued\<lparr>frozen := False, frozenEventQ := [], dispatched := [a_x, a_y],
               delivered := [(0, a_x), (0, a_y), (1, a_y), (1, a_x)]\<rparr>)"
proof -
  have 1: "\<not> frozen flowing_queued"
    by (simp add: flowing_queued_def M2Provider_def)
  have 2: "freeze example_platform 4 releasing_listeners 0 False flowing_queued =
       Some (flowing_queued\<lparr>frozenEventQ := [], dispatched := [a_x, a_y],
               delivered := [(0, a_x), (0, a_y), (1, a_y)]\<rparr>)"
    by code_simp
  have 3: "freeze example_platform 4 releasing_listeners 0 False two_queued =
       Some (two_queued\<lparr>frozen := False, frozenEventQ := [], dispatched := [a_x, a_y],
               delivered := [(0, a_x), (0, a_y), (1, a_y), (1, a_x)]\<rparr>)"
    by code_simp
  from 1 2 3 show ?thesis by simp
qed

text \<open>
  C6 (amended). Engaging the gate twice, through the \<open>freeze\<close> of any render, leaves
  the state that engaging it once leaves. Releasing a flowing gate whose queue is
  empty returns with the state as it was: nothing is dispatched and nothing
  delivered; every flowing state that the provider is in between calls from
  outside has an empty queue; and releasing through a later render whose flag is
  not set changes nothing. A release of a flowing gate that still has events
  queued, as a listener finds it during a drain, dispatches them: with listeners
  that call nothing back, all of them in queue order.
\<close>

theorem C6_engage_twice_release_when_empty:
  "(\<exists>s1. freeze pf n ls r True s = Some s1 \<and> freeze pf m ls r True s1 = Some s1)
   \<and> (\<not> frozen s \<longrightarrow> frozenEventQ s = [] \<longrightarrow> freeze pf n ls 0 False s = Some s)
   \<and> (reachable pf ls s \<longrightarrow> \<not> frozen s \<longrightarrow> frozenEventQ s = [])
   \<and> (0 < r \<longrightarrow> r \<le> length (later_frozen s) \<longrightarrow> \<not> later_frozen s ! (r - 1) \<longrightarrow>
        freeze pf n ls r False s = Some s)
   \<and> (passive_listeners ls \<longrightarrow> \<not> frozen s \<longrightarrow> length (frozenEventQ s) \<le> n \<longrightarrow>
        freeze pf n ls 0 False s =
          Some (s\<lparr>frozenEventQ := [], dispatched := dispatched s @ frozenEventQ s,
                  delivered := delivered s @ concat (map (deliveries ls) (frozenEventQ s))\<rparr>))"
proof (intro conjI impI)
  show "\<exists>s1. freeze pf n ls r True s = Some s1 \<and> freeze pf m ls r True s1 = Some s1"
    by (cases "r = 0") (simp_all add: freeze_later)
next
  assume f: "\<not> frozen s" and "frozenEventQ s = []"
  moreover have "s\<lparr>frozen := False\<rparr> = s" using f by simp
  ultimately show "freeze pf n ls 0 False s = Some s"
    by (simp add: freeze_False drain_Nil)
next
  assume "reachable pf ls s" and "\<not> frozen s"
  then show "frozenEventQ s = []"
    using reachable_gate_inv [of pf ls s] by (simp add: gate_inv_def)
next
  assume "0 < r" and "r \<le> length (later_frozen s)" and "\<not> later_frozen s ! (r - 1)"
  moreover from this have "(later_frozen s)[r - 1 := False] = later_frozen s"
    by (simp add: list_update_same_conv)
  ultimately show "freeze pf n ls r False s = Some s"
    by (simp add: freeze_later)
next
  assume p: "passive_listeners ls" and f: "\<not> frozen s" and "length (frozenEventQ s) \<le> n"
  moreover have "s\<lparr>frozen := False\<rparr> = s" using f by simp
  ultimately show "freeze pf n ls 0 False s =
          Some (s\<lparr>frozenEventQ := [], dispatched := dispatched s @ frozenEventQ s,
                  delivered := delivered s @ concat (map (deliveries ls) (frozenEventQ s))\<rparr>)"
    by (simp add: freeze_False drain_passive)
qed

theorem C6_witness:
  \<open>(\<exists>s1. freeze example_platform 2 one_listener 0 True (M2Provider\<lparr>frozenEventQ := [a_x]\<rparr>) = Some s1
         \<and> freeze example_platform 2 one_listener 0 True s1 = Some s1)
   \<and> reachable example_platform one_listener
        (M2Provider\<lparr>arrived := [a_x], dispatched := [a_x], delivered := [(0, a_x)]\<rparr>)
   \<and> freeze example_platform 2 one_listener 0 False
        (M2Provider\<lparr>arrived := [a_x], dispatched := [a_x], delivered := [(0, a_x)]\<rparr>) =
       Some (M2Provider\<lparr>arrived := [a_x], dispatched := [a_x], delivered := [(0, a_x)]\<rparr>)
   \<and> freeze example_platform 2 one_listener 1 False (provider_render M2Provider) =
       Some (provider_render M2Provider)
   \<and> passive_listeners one_listener \<and> \<not> frozen flowing_queued
   \<and> freeze example_platform 2 one_listener 0 False flowing_queued =
       Some (flowing_queued\<lparr>frozenEventQ := [], dispatched := [a_x, a_y],
               delivered := [(0, a_x), (0, a_y)]\<rparr>)\<close>
proof -
  let ?s = "M2Provider\<lparr>arrived := [a_x], dispatched := [a_x], delivered := [(0, a_x)]\<rparr>"
  have m: \<open>ws_message example_platform 1 one_listener M2Provider (js ''{"event":"a","data":"x"}'')
           = Some ?s\<close>
    by code_simp
  have r: "reachable example_platform one_listener ?s"
    by (rule reachable_message [OF reachable_init m])
  have f: "\<not> frozen ?s" by (simp add: M2Provider_def)
  from C6_engage_twice_release_when_empty
         [of example_platform 2 one_listener 0 "M2Provider\<lparr>frozenEventQ := [a_x]\<rparr>" 2]
  have a: "\<exists>s1. freeze example_platform 2 one_listener 0 True (M2Provider\<lparr>frozenEventQ := [a_x]\<rparr>) = Some s1
         \<and> freeze example_platform 2 one_listener 0 True s1 = Some s1"
    by blast
  from C6_engage_twice_release_when_empty [of example_platform 2 one_listener 0 ?s 2] r f
  have b: "freeze example_platform 2 one_listener 0 False ?s = Some ?s"
    by blast
  have l: "0 < (1 :: nat)" "1 \<le> length (later_frozen (provider_render M2Provider))"
    "\<not> later_frozen (provider_render M2Provider) ! (1 - 1)"
    by (simp_all add: provider_render_def M2Provider_def)
  from C6_engage_twice_release_when_empty
         [of example_platform 2 one_listener 1 "provider_render M2Provider" 2] l
  have c: "freeze example_platform 2 one_listener 1 False (provider_render M2Provider) =
       Some (provider_render M2Provider)"
    by blast
  have p: "passive_listeners one_listener"
    by (simp add: passive_listeners_def one_listener_def)
  have g: "\<not> frozen flowing_queued" "length (frozenEventQ flowing_queued) \<le> (2 :: nat)"
    by (simp_all add: flowing_queued_def M2Provider_def)
  from C6_engage_twice_release_when_empty [of example_platform 2 one_listener 0 flowing_queued 2]
    p g
  have "freeze example_platform 2 one_listener 0 False flowing_queued =
       Some (flowing_queued\<lparr>frozenEventQ := [],
               dispatched := dispatched flowing_queued @ frozenEventQ flowing_queued,
               delivered := delivered flowing_queued @
                 concat (map (deliveries one_listener) (frozenEventQ flowing_queued))\<rparr>)"
    by blast
  then have d: "freeze example_platform 2 one_listener 0 False flowing_queued =
       Some (flowing_queued\<lparr>frozenEventQ := [], dispatched := [a_x, a_y],
               delivered := [(0, a_x), (0, a_y)]\<rparr>)"
    by (simp add: flowing_queued_def M2Provider_def deliveries_def one_listener_def a_y_def)
  from a r b c p g(1) d show ?thesis by blast
qed

section \<open>The provider: frames that do not decode, and the event name\<close>

text \<open>
  C4. For every frame that fails to decode, arriving while \<open>handleMessage\<close> is
  registered: \<open>handleMessage\<close> throws its \<open>Error\<close>, which names the frame; the \<open>message\<close>
  event ends with that exception added to those reported and everything else as it
  was, the gate, the queue, the traces, and the registration of the handler; and a
  frame \<open>g\<close> that decodes, arriving next, is handled as it would have been without
  the bad frame: its envelope is queued when the gate is frozen and dispatched when
  it is flowing, to every listener of its type when the listeners call nothing back.
\<close>

theorem C4_malformed_frame_is_isolated:
  assumes "decode pf frame = None" and "listening s"
  shows "handleMessage pf n ls s frame =
           Some (Inl (Error (js ''Cannot parse message from M2: '' @ frame)))
         \<and> ws_message pf n ls s frame =
             Some (s\<lparr>reported := reported s @ [Error (js ''Cannot parse message from M2: '' @ frame)]\<rparr>)
         \<and> (\<forall>g ev. decode pf g = Some ev \<longrightarrow> frozen s \<longrightarrow>
               receive pf n ls s [frame, g] =
                 Some (s\<lparr>frozenEventQ := frozenEventQ s @ [ev], arrived := arrived s @ [ev],
                         reported := reported s @ [Error (js ''Cannot parse message from M2: '' @ frame)]\<rparr>))
         \<and> (\<forall>g ev. decode pf g = Some ev \<longrightarrow> \<not> frozen s \<longrightarrow> passive_listeners ls \<longrightarrow>
               receive pf n ls s [frame, g] =
                 Some (s\<lparr>arrived := arrived s @ [ev], dispatched := dispatched s @ [ev],
                         delivered := delivered s @ deliveries ls ev,
                         reported := reported s @ [Error (js ''Cannot parse message from M2: '' @ frame)]\<rparr>))
         \<and> (\<forall>fs. receive pf n ls s (frame # fs) =
               receive pf n ls
                 (s\<lparr>reported := reported s @ [Error (js ''Cannot parse message from M2: '' @ frame)]\<rparr>) fs)"
proof -
  let ?e = "Error (js ''Cannot parse message from M2: '' @ frame)"
  let ?s = "s\<lparr>reported := reported s @ [?e]\<rparr>"
  have w: "ws_message pf n ls s frame = Some ?s"
    using assms by (simp add: ws_message_bad)
  have l: "listening ?s" using assms(2) by simp
  have fr: "receive pf n ls s [frame, g] =
              Some (s\<lparr>frozenEventQ := frozenEventQ s @ [ev], arrived := arrived s @ [ev],
                      reported := reported s @ [?e]\<rparr>)"
    if "decode pf g = Some ev" "frozen s" for g ev
    using that l by (simp add: w ws_message_frozen)
  have fl: "receive pf n ls s [frame, g] =
              Some (s\<lparr>arrived := arrived s @ [ev], dispatched := dispatched s @ [ev],
                      delivered := delivered s @ deliveries ls ev,
                      reported := reported s @ [?e]\<rparr>)"
    if "decode pf g = Some ev" "\<not> frozen s" "passive_listeners ls" for g ev
    using that l by (simp add: w ws_message_flowing dispatchEvent_passive)
  show ?thesis
    using fr fl by (simp add: handleMessage_bad [OF assms(1)] w)
qed

theorem C4_witness:
  \<open>decode example_platform (js ''{"event":'') = None \<and> listening M2Provider
   \<and> handleMessage example_platform 1 one_listener M2Provider (js ''{"event":'') =
       Some (Inl (Error (js ''Cannot parse message from M2: {"event":'')))
   \<and> ws_message example_platform 1 one_listener M2Provider (js ''{"event":'') =
       Some (M2Provider\<lparr>reported := [Error (js ''Cannot parse message from M2: {"event":'')]\<rparr>)
   \<and> decode example_platform (js ''{"event":"a","data":"x"}'') = Some a_x
   \<and> \<not> frozen M2Provider \<and> passive_listeners one_listener
   \<and> receive example_platform 1 one_listener M2Provider
        [js ''{"event":'', js ''{"event":"a","data":"x"}''] =
       Some (M2Provider\<lparr>arrived := [a_x], dispatched := [a_x], delivered := [(0, a_x)],
               reported := [Error (js ''Cannot parse message from M2: {"event":'')]\<rparr>)
   \<and> frozen (M2Provider\<lparr>frozen := True\<rparr>)
   \<and> receive example_platform 1 one_listener (M2Provider\<lparr>frozen := True\<rparr>)
        [js ''{"event":'', js ''{"event":"a","data":"x"}''] =
       Some (M2Provider\<lparr>frozen := True, frozenEventQ := [a_x], arrived := [a_x],
               reported := [Error (js ''Cannot parse message from M2: {"event":'')]\<rparr>)\<close>
proof -
  have h: \<open>decode example_platform (js ''{"event":'') = None\<close> by code_simp
  have l: "listening M2Provider" "listening (M2Provider\<lparr>frozen := True\<rparr>)"
    by (simp_all add: M2Provider_def)
  have g: \<open>decode example_platform (js ''{"event":"a","data":"x"}'') = Some a_x\<close> by code_simp
  have f: "\<not> frozen M2Provider" "frozen (M2Provider\<lparr>frozen := True\<rparr>)"
    by (simp_all add: M2Provider_def)
  have p: "passive_listeners one_listener"
    by (simp add: passive_listeners_def one_listener_def)
  have e: \<open>js ''Cannot parse message from M2: '' @ js ''{"event":'' =
           js ''Cannot parse message from M2: {"event":''\<close>
    by (simp add: js_def)
  note flowing = C4_malformed_frame_is_isolated [OF h l(1), of 1 one_listener, unfolded e]
  note engaged = C4_malformed_frame_is_isolated [OF h l(2), of 1 one_listener, unfolded e]
  from flowing have 1:
    \<open>handleMessage example_platform 1 one_listener M2Provider (js ''{"event":'') =
       Some (Inl (Error (js ''Cannot parse message from M2: {"event":'')))\<close>
    \<open>ws_message example_platform 1 one_listener M2Provider (js ''{"event":'') =
       Some (M2Provider\<lparr>reported := [Error (js ''Cannot parse message from M2: {"event":'')]\<rparr>)\<close>
    by (simp_all add: M2Provider_def)
  from flowing g f(1) p have
    \<open>receive example_platform 1 one_listener M2Provider
        [js ''{"event":'', js ''{"event":"a","data":"x"}''] =
       Some (M2Provider\<lparr>arrived := arrived M2Provider @ [a_x],
               dispatched := dispatched M2Provider @ [a_x],
               delivered := delivered M2Provider @ deliveries one_listener a_x,
               reported := reported M2Provider @
                 [Error (js ''Cannot parse message from M2: {"event":'')]\<rparr>)\<close>
    by blast
  then have 2:
    \<open>receive example_platform 1 one_listener M2Provider
        [js ''{"event":'', js ''{"event":"a","data":"x"}''] =
       Some (M2Provider\<lparr>arrived := [a_x], dispatched := [a_x], delivered := [(0, a_x)],
               reported := [Error (js ''Cannot parse message from M2: {"event":'')]\<rparr>)\<close>
    by (simp add: M2Provider_def deliveries_def one_listener_def a_x_def)
  from engaged g f(2) have
    \<open>receive example_platform 1 one_listener (M2Provider\<lparr>frozen := True\<rparr>)
        [js ''{"event":'', js ''{"event":"a","data":"x"}''] =
       Some (M2Provider\<lparr>frozen := True\<rparr>
              \<lparr>frozenEventQ := frozenEventQ (M2Provider\<lparr>frozen := True\<rparr>) @ [a_x],
               arrived := arrived (M2Provider\<lparr>frozen := True\<rparr>) @ [a_x],
               reported := reported (M2Provider\<lparr>frozen := True\<rparr>) @
                 [Error (js ''Cannot parse message from M2: {"event":'')]\<rparr>)\<close>
    by blast
  then have 3:
    \<open>receive example_platform 1 one_listener (M2Provider\<lparr>frozen := True\<rparr>)
        [js ''{"event":'', js ''{"event":"a","data":"x"}''] =
       Some (M2Provider\<lparr>frozen := True, frozenEventQ := [a_x], arrived := [a_x],
               reported := [Error (js ''Cannot parse message from M2: {"event":'')]\<rparr>)\<close>
    by (simp add: M2Provider_def)
  from h l(1) 1 g f p 2 3 show ?thesis by blast
qed

text \<open>
  C8 (as stated). The claim: after a successful decode the envelope's event is present
  and not empty. The code on the frame \<open>{"event":""}\<close>: the decode succeeds and the
  envelope's event is the empty string; with the gate flowing it is dispatched.
\<close>

theorem C8_empty_event_decoded:
  \<open>decode example_platform (js ''{"event":""}'') = Some \<lparr>etype = [], detail = JNull\<rparr>
   \<and> ws_message example_platform 0 [] M2Provider (js ''{"event":""}'') =
       Some (M2Provider\<lparr>arrived := [\<lparr>etype = [], detail = JNull\<rparr>],
                        dispatched := [\<lparr>etype = [], detail = JNull\<rparr>]\<rparr>)\<close>
proof -
  have d: \<open>decode example_platform (js ''{"event":""}'') = Some \<lparr>etype = [], detail = JNull\<rparr>\<close>
    by code_simp
  have w: \<open>ws_message example_platform 0 [] M2Provider (js ''{"event":""}'') =
       Some (M2Provider\<lparr>arrived := [\<lparr>etype = [], detail = JNull\<rparr>],
                        dispatched := [\<lparr>etype = [], detail = JNull\<rparr>]\<rparr>)\<close>
    by code_simp
  from d w show ?thesis by simp
qed

text \<open>
  C8 (amended). A frame that decodes produces exactly one envelope: it is queued when
  the gate is frozen and dispatched when it is flowing (to every listener of its type,
  when the listeners call nothing back). The envelope's event is the string
  conversion of the payload's \<open>event\<close> member and the text \<open>undefined\<close> when the payload
  has no such member; nothing checks it, so a payload whose \<open>event\<close> is the string
  \<open>t\<close> gives the event \<open>t\<close>, whatever \<open>t\<close> is, the empty string included. A frame that
  does not decode produces no envelope: the \<open>message\<close> event adds the exception to
  those reported and leaves the queue and the traces as they were.
\<close>

theorem C8_event_is_converted_member:
  "(listening s \<longrightarrow> decode pf frame = None \<longrightarrow>
      ws_message pf n ls s frame =
        Some (s\<lparr>reported := reported s @ [Error (js ''Cannot parse message from M2: '' @ frame)]\<rparr>))
   \<and> (listening s \<longrightarrow> frozen s \<longrightarrow> decode pf frame = Some ev \<longrightarrow>
        ws_message pf n ls s frame =
          Some (s\<lparr>frozenEventQ := frozenEventQ s @ [ev], arrived := arrived s @ [ev]\<rparr>))
   \<and> (listening s \<longrightarrow> \<not> frozen s \<longrightarrow> passive_listeners ls \<longrightarrow> decode pf frame = Some ev \<longrightarrow>
        ws_message pf n ls s frame =
          Some (s\<lparr>arrived := arrived s @ [ev], dispatched := dispatched s @ [ev],
                  delivered := delivered s @ deliveries ls ev\<rparr>))
   \<and> (JSON_parse pf frame = Some (JObj [(js ''event'', JStr t)]) \<longrightarrow>
        decode pf frame = Some \<lparr>etype = t, detail = JNull\<rparr>)
   \<and> (JSON_parse pf frame = Some (JObj [(js ''data'', d)]) \<longrightarrow>
        decode pf frame = Some \<lparr>etype = js ''undefined'', detail = d\<rparr>)
   \<and> (decode pf frame = Some ev \<longrightarrow>
        (\<exists>payload. JSON_parse pf frame = Some payload \<and> payload \<noteq> JNull
           \<and> (case get_prop payload (js ''event'') of
                 None \<Rightarrow> etype ev = js ''undefined''
               | Some e \<Rightarrow> ToString pf e = Some (etype ev))))"
proof (intro conjI impI)
  assume "listening s" "decode pf frame = None"
  then show "ws_message pf n ls s frame =
        Some (s\<lparr>reported := reported s @ [Error (js ''Cannot parse message from M2: '' @ frame)]\<rparr>)"
    by (rule ws_message_bad)
next
  assume "listening s" "frozen s" "decode pf frame = Some ev"
  then show "ws_message pf n ls s frame =
          Some (s\<lparr>frozenEventQ := frozenEventQ s @ [ev], arrived := arrived s @ [ev]\<rparr>)"
    by (simp add: ws_message_frozen)
next
  assume "listening s" "\<not> frozen s" "passive_listeners ls" "decode pf frame = Some ev"
  then show "ws_message pf n ls s frame =
          Some (s\<lparr>arrived := arrived s @ [ev], dispatched := dispatched s @ [ev],
                  delivered := delivered s @ deliveries ls ev\<rparr>)"
    by (simp add: ws_message_flowing dispatchEvent_passive)
next
  assume "JSON_parse pf frame = Some (JObj [(js ''event'', JStr t)])"
  moreover have "js ''data'' \<noteq> js ''event''" by (simp add: js_def)
  ultimately show "decode pf frame = Some \<lparr>etype = t, detail = JNull\<rparr>"
    by (simp add: decode_def get_prop_def)
next
  assume "JSON_parse pf frame = Some (JObj [(js ''data'', d)])"
  moreover have "js ''data'' \<noteq> js ''event''" by (simp add: js_def)
  ultimately show "decode pf frame = Some \<lparr>etype = js ''undefined'', detail = d\<rparr>"
    by (simp add: decode_def get_prop_def)
next
  assume "decode pf frame = Some ev"
  then show "\<exists>payload. JSON_parse pf frame = Some payload \<and> payload \<noteq> JNull
           \<and> (case get_prop payload (js ''event'') of
                 None \<Rightarrow> etype ev = js ''undefined''
               | Some e \<Rightarrow> ToString pf e = Some (etype ev))"
    by (auto simp: decode_def split: option.splits if_splits)
qed

theorem C8_witness:
  \<open>listening M2Provider \<and> decode example_platform (js ''{"event":'') = None
   \<and> ws_message example_platform 1 one_listener M2Provider (js ''{"event":'') =
       Some (M2Provider\<lparr>reported := [Error (js ''Cannot parse message from M2: {"event":'')]\<rparr>)
   \<and> decode example_platform (js ''{"event":"a","data":"x"}'') = Some a_x
   \<and> listening (M2Provider\<lparr>frozen := True\<rparr>) \<and> frozen (M2Provider\<lparr>frozen := True\<rparr>)
   \<and> ws_message example_platform 1 one_listener (M2Provider\<lparr>frozen := True\<rparr>)
        (js ''{"event":"a","data":"x"}'') =
       Some (M2Provider\<lparr>frozen := True, frozenEventQ := [a_x], arrived := [a_x]\<rparr>)
   \<and> \<not> frozen M2Provider \<and> passive_listeners one_listener
   \<and> ws_message example_platform 1 one_listener M2Provider (js ''{"event":"a","data":"x"}'') =
       Some (M2Provider\<lparr>arrived := [a_x], dispatched := [a_x], delivered := [(0, a_x)]\<rparr>)
   \<and> JSON_parse example_platform (js ''{"event":""}'') = Some (JObj [(js ''event'', JStr [])])
   \<and> decode example_platform (js ''{"event":""}'') = Some \<lparr>etype = [], detail = JNull\<rparr>
   \<and> JSON_parse example_platform (js ''{"data":"x"}'') =
       Some (JObj [(js ''data'', JStr (js ''x''))])
   \<and> decode example_platform (js ''{"data":"x"}'') =
       Some \<lparr>etype = js ''undefined'', detail = JStr (js ''x'')\<rparr>
   \<and> (\<exists>payload. JSON_parse example_platform (js ''{"event":"a","data":"x"}'') = Some payload
         \<and> payload \<noteq> JNull
         \<and> get_prop payload (js ''event'') = Some (JStr (js ''a''))
         \<and> ToString example_platform (JStr (js ''a'')) = Some (etype a_x))\<close>
proof -
  have l: "listening M2Provider" "listening (M2Provider\<lparr>frozen := True\<rparr>)"
    by (simp_all add: M2Provider_def)
  have f: "\<not> frozen M2Provider" "frozen (M2Provider\<lparr>frozen := True\<rparr>)"
    by (simp_all add: M2Provider_def)
  have p: "passive_listeners one_listener"
    by (simp add: passive_listeners_def one_listener_def)
  have bad: \<open>decode example_platform (js ''{"event":'') = None\<close> by code_simp
  have good: \<open>decode example_platform (js ''{"event":"a","data":"x"}'') = Some a_x\<close>
    by code_simp
  have pe: \<open>JSON_parse example_platform (js ''{"event":""}'') = Some (JObj [(js ''event'', JStr [])])\<close>
    by code_simp
  have pd: \<open>JSON_parse example_platform (js ''{"data":"x"}'') =
       Some (JObj [(js ''data'', JStr (js ''x''))])\<close>
    by code_simp
  have pa: \<open>JSON_parse example_platform (js ''{"event":"a","data":"x"}'') =
       Some (JObj [(js ''event'', JStr (js ''a'')), (js ''data'', JStr (js ''x''))])\<close>
    by code_simp
  have e: \<open>js ''Cannot parse message from M2: '' @ js ''{"event":'' =
           js ''Cannot parse message from M2: {"event":''\<close>
    by (simp add: js_def)
  from C8_event_is_converted_member
         [where s = M2Provider and pf = example_platform and n = 1 and ls = one_listener
            and frame = \<open>js ''{"event":'' \<close>, THEN conjunct1, rule_format, OF l(1) bad]
  have 1: \<open>ws_message example_platform 1 one_listener M2Provider (js ''{"event":'') =
       Some (M2Provider\<lparr>reported := [Error (js ''Cannot parse message from M2: {"event":'')]\<rparr>)\<close>
    by (simp add: e M2Provider_def)
  from C8_event_is_converted_member
         [where s = "M2Provider\<lparr>frozen := True\<rparr>" and pf = example_platform and n = 1
            and ls = one_listener and frame = \<open>js ''{"event":"a","data":"x"}''\<close> and ev = a_x,
          THEN conjunct2, THEN conjunct1, rule_format, OF l(2) f(2) good]
  have 2: \<open>ws_message example_platform 1 one_listener (M2Provider\<lparr>frozen := True\<rparr>)
        (js ''{"event":"a","data":"x"}'') =
       Some (M2Provider\<lparr>frozen := True, frozenEventQ := [a_x], arrived := [a_x]\<rparr>)\<close>
    by (simp add: M2Provider_def)
  from C8_event_is_converted_member
         [where s = M2Provider and pf = example_platform and n = 1
            and ls = one_listener and frame = \<open>js ''{"event":"a","data":"x"}''\<close> and ev = a_x,
          THEN conjunct2, THEN conjunct2, THEN conjunct1, rule_format, OF l(1) f(1) p good]
  have 3: \<open>ws_message example_platform 1 one_listener M2Provider (js ''{"event":"a","data":"x"}'') =
       Some (M2Provider\<lparr>arrived := [a_x], dispatched := [a_x], delivered := [(0, a_x)]\<rparr>)\<close>
    by (simp add: M2Provider_def deliveries_def one_listener_def a_x_def)
  from C8_event_is_converted_member
         [where pf = example_platform and frame = \<open>js ''{"event":""}''\<close> and t = "[]",
          THEN conjunct2, THEN conjunct2, THEN conjunct2, THEN conjunct1, rule_format, OF pe]
  have 4: \<open>decode example_platform (js ''{"event":""}'') = Some \<lparr>etype = [], detail = JNull\<rparr>\<close> .
  from C8_event_is_converted_member
         [where pf = example_platform and frame = \<open>js ''{"data":"x"}''\<close> and d = "JStr (js ''x'')",
          THEN conjunct2, THEN conjunct2, THEN conjunct2, THEN conjunct2, THEN conjunct1,
          rule_format, OF pd]
  have 5: \<open>decode example_platform (js ''{"data":"x"}'') =
       Some \<lparr>etype = js ''undefined'', detail = JStr (js ''x'')\<rparr>\<close> .
  from C8_event_is_converted_member
         [where pf = example_platform and frame = \<open>js ''{"event":"a","data":"x"}''\<close> and ev = a_x,
          THEN conjunct2, THEN conjunct2, THEN conjunct2, THEN conjunct2, THEN conjunct2,
          rule_format, OF good]
  obtain payload where
    y: \<open>JSON_parse example_platform (js ''{"event":"a","data":"x"}'') = Some payload\<close>
      "payload \<noteq> JNull"
      "(case get_prop payload (js ''event'') of
          None \<Rightarrow> etype a_x = js ''undefined''
        | Some e \<Rightarrow> ToString example_platform e = Some (etype a_x))"
    by (elim exE conjE) (rule that, assumption+)
  from y(1) pa have
    py: "payload = JObj [(js ''event'', JStr (js ''a'')), (js ''data'', JStr (js ''x''))]"
    by simp
  then have g: "get_prop payload (js ''event'') = Some (JStr (js ''a''))"
    by (simp add: get_prop_def)
  with y(3) have ts: "ToString example_platform (JStr (js ''a'')) = Some (etype a_x)"
    by simp
  from y(1,2) g ts have 6:
    \<open>\<exists>payload. JSON_parse example_platform (js ''{"event":"a","data":"x"}'') = Some payload
         \<and> payload \<noteq> JNull
         \<and> get_prop payload (js ''event'') = Some (JStr (js ''a''))
         \<and> ToString example_platform (JStr (js ''a'')) = Some (etype a_x)\<close>
    by blast
  from l(1) bad 1 good l(2) f(2) 2 f(1) p 3 pe 4 pd 5 6 show ?thesis by (intro conjI)
qed

section \<open>The provider: what is dispatched is what was queued or has arrived\<close>








section \<open>The provider: listeners that only engage the gate\<close>






section \<open>The provider: listeners that engage the gate and let frames arrive\<close>






















section \<open>The provider: \<open>send\<close> and \<open>handleMessage\<close> on the same frame\<close>

text \<open>
  What \<open>handleMessage\<close> decodes from the frame that \<open>send\<close> writes when \<open>data\<close> is
  \<open>undefined\<close>: the member is left out of the frame, and the event built from it has
  the \<open>detail\<close> \<open>null\<close>.
\<close>

lemma decode_send_undefined:
  assumes "representable pf (JObj [(js ''event'', JStr event)])"
  shows "decode pf (send pf event None) = Some \<lparr>etype = event, detail = JNull\<rparr>"
proof -
  have "js ''data'' \<noteq> js ''event''" by (simp add: js_def)
  with assms show ?thesis
    by (simp add: send_def representable_def decode_def get_prop_def)
qed



end
